theory Spec2Isabelle
  imports Main
begin

section \<open>Memory, pointers and failures\<close>

text \<open>
  The program of \<^verbatim>\<open>example.cc\<close> keeps payload objects on the free store and passes raw
  pointers to them between three wrapper classes. A pointer \<^verbatim>\<open>T*\<close> is an optional
  address: \<open>None\<close> is \<^verbatim>\<open>nullptr\<close>. The free store is a list of cells indexed by
  address; a cell is \<open>Some v\<close> while the object is alive and \<open>None\<close> once it has been
  deleted. \<open>deleted\<close> records every \<^verbatim>\<open>delete\<close> that ran, in order, so that the
  number of destructor runs of a payload can be counted.
\<close>

type_synonym addr = nat

record 'a memory =
  heap :: "'a option list"
  deleted :: "addr list"

text \<open>
  What a call can end in other than a value:
  \<^item> \<open>AssertionFailed\<close>: an \<^verbatim>\<open>assert\<close> of the source was false in a build that checks it;
  \<^item> \<open>UndefinedBehaviour\<close>: the call broke a precondition that nothing checks (a null or
    dangling pointer is dereferenced or deleted, \<^verbatim>\<open>std::stack::top\<close> on an empty stack);
  \<^item> \<open>IllFormed\<close>: the code has no meaning at all, because overload resolution selects
    a function declared \<^verbatim>\<open>= delete\<close> or a client names a handle it never declared;
  \<^item> \<open>Thrown\<close>: the payload's constructor threw, and the exception propagates.
\<close>

datatype error = AssertionFailed | UndefinedBehaviour | IllFormed | Thrown

definition lookup :: "'a memory \<Rightarrow> addr \<Rightarrow> 'a option" where
  "lookup m a = (if a < length (heap m) then heap m ! a else None)"

text \<open>\<^verbatim>\<open>new X(...)\<close>: the object is placed at an address never used before.\<close>

definition new_obj :: "'a \<Rightarrow> 'a memory \<Rightarrow> addr \<times> 'a memory" where
  "new_obj v m = (length (heap m), m\<lparr>heap := heap m @ [Some v]\<rparr>)"

text \<open>\<^verbatim>\<open>delete p\<close> for a non-null \<open>p\<close>: the object must be alive.\<close>

definition delete_obj :: "addr \<Rightarrow> 'a memory \<Rightarrow> error + 'a memory" where
  "delete_obj a m =
     (case lookup m a of
        None \<Rightarrow> Inl UndefinedBehaviour
      | Some v \<Rightarrow> Inr (m\<lparr>heap := (heap m)[a := None], deleted := deleted m @ [a]\<rparr>))"

text \<open>Reading through a pointer (\<^verbatim>\<open>*p\<close>).\<close>

definition deref :: "addr option \<Rightarrow> 'a memory \<Rightarrow> error + 'a" where
  "deref p m =
     (case p of
        None \<Rightarrow> Inl UndefinedBehaviour
      | Some a \<Rightarrow> (case lookup m a of None \<Rightarrow> Inl UndefinedBehaviour | Some v \<Rightarrow> Inr v))"

section \<open>The owning handle \<^verbatim>\<open>owner_ref\<close>\<close>

text \<open>
  The class has the single member \<^verbatim>\<open>T* _p\<close>. Every member function below takes the
  flag \<open>dbg\<close> where the source has an \<^verbatim>\<open>assert\<close>: the assertion is checked when
  \<open>dbg\<close> holds (a build without \<^verbatim>\<open>NDEBUG\<close>) and is no code at all otherwise. Member
  functions take the memory and return it, so that what they leave alone can be stated.
\<close>

record owner_ref =
  owner_p :: "addr option"

text \<open>The private constructor \<^verbatim>\<open>explicit owner_ref(T* p) : _p(p) {}\<close>.\<close>

definition owner_ref_raw :: "addr option \<Rightarrow> owner_ref" where
  "owner_ref_raw p = \<lparr>owner_p = p\<rparr>"

text \<open>
  \<^verbatim>\<open>owner_ref(owner_ref&& other) : _p(other._p) { assert(other._p != nullptr); other._p = nullptr; }\<close>
  The result is the new object and \<open>other\<close> as the constructor leaves it.
\<close>

definition owner_ref_move_ctor ::
  "bool \<Rightarrow> owner_ref \<Rightarrow> 'a memory \<Rightarrow> error + ((owner_ref \<times> owner_ref) \<times> 'a memory)" where
  "owner_ref_move_ctor dbg other m =
     (let this = \<lparr>owner_p = owner_p other\<rparr> in
      if dbg \<and> owner_p other = None then Inl AssertionFailed
      else Inr ((this, other\<lparr>owner_p := None\<rparr>), m))"

text \<open>
  \<^verbatim>\<open>operator=(owner_ref&& other)\<close>: two assertions, then \<^verbatim>\<open>_p = other._p; other._p = nullptr;\<close>.
  The result is \<open>this\<close> and \<open>other\<close> after the assignment.
\<close>

definition owner_ref_move_assign ::
  "bool \<Rightarrow> owner_ref \<Rightarrow> owner_ref \<Rightarrow> 'a memory \<Rightarrow> error + ((owner_ref \<times> owner_ref) \<times> 'a memory)" where
  "owner_ref_move_assign dbg this other m =
     (if dbg \<and> owner_p other = None then Inl AssertionFailed
      else if dbg \<and> owner_p this \<noteq> None then Inl AssertionFailed
      else Inr ((this\<lparr>owner_p := owner_p other\<rparr>, other\<lparr>owner_p := None\<rparr>), m))"

text \<open>\<^verbatim>\<open>~owner_ref() { if (_p != nullptr) { delete _p; } }\<close>\<close>

definition owner_ref_dtor :: "owner_ref \<Rightarrow> 'a memory \<Rightarrow> error + 'a memory" where
  "owner_ref_dtor this m =
     (case owner_p this of None \<Rightarrow> Inr m | Some a \<Rightarrow> delete_obj a m)"

text \<open>
  \<^verbatim>\<open>T* operator->() const { return _p; }\<close> and \<^verbatim>\<open>T& operator*() const { return *_p; }\<close>:
  neither has an assertion.
\<close>

definition owner_ref_arrow :: "owner_ref \<Rightarrow> addr option" where
  "owner_ref_arrow this = owner_p this"

definition owner_ref_star :: "owner_ref \<Rightarrow> 'a memory \<Rightarrow> error + 'a" where
  "owner_ref_star this m = deref (owner_p this) m"

text \<open>
  \<^verbatim>\<open>owner_ref(const owner_ref&) = delete;\<close> stands beside the move constructor, so the
  constructor that initialises a new \<^verbatim>\<open>owner_ref\<close> from an expression of the same type
  depends on the value category of that expression: an lvalue selects the deleted copy
  constructor, an rvalue the move constructor. The selection is made when the code is
  compiled, before anything runs.
\<close>

datatype value_category = Lvalue | Rvalue

definition owner_ref_select_ctor ::
  "value_category \<Rightarrow>
     error + (bool \<Rightarrow> owner_ref \<Rightarrow> 'a memory \<Rightarrow> error + ((owner_ref \<times> owner_ref) \<times> 'a memory))" where
  "owner_ref_select_ctor cat =
     (case cat of
        Lvalue \<Rightarrow> Inl IllFormed
      | Rvalue \<Rightarrow> Inr owner_ref_move_ctor)"

text \<open>
  \<^verbatim>\<open>make_owner_ref<X>(args...)\<close> returns \<^verbatim>\<open>owner_ref<X>(new X(args...))\<close>. The payload's
  constructor is a parameter: \<open>ctor args\<close> is the object it builds, or \<open>Inl\<close> when it
  throws. The free store of the model never runs out.
\<close>

definition make_owner_ref ::
  "('args \<Rightarrow> error + 'a) \<Rightarrow> 'args \<Rightarrow> 'a memory \<Rightarrow> error + (owner_ref \<times> 'a memory)" where
  "make_owner_ref ctor args m =
     (case ctor args of
        Inl e \<Rightarrow> Inl e
      | Inr v \<Rightarrow> (case new_obj v m of (a, m') \<Rightarrow> Inr (owner_ref_raw (Some a), m')))"

section \<open>The views \<^verbatim>\<open>shared_ref\<close> and \<^verbatim>\<open>const_ref\<close>\<close>

record shared_ref =
  shared_p :: "addr option"

text \<open>\<^verbatim>\<open>shared_ref(owner_ref<T>& src) : _p(src._p) {}\<close>\<close>

definition shared_ref_ctor :: "owner_ref \<Rightarrow> shared_ref" where
  "shared_ref_ctor src = \<lparr>shared_p = owner_p src\<rparr>"

definition shared_ref_arrow :: "shared_ref \<Rightarrow> addr option" where
  "shared_ref_arrow this = shared_p this"

definition shared_ref_star :: "shared_ref \<Rightarrow> 'a memory \<Rightarrow> error + 'a" where
  "shared_ref_star this m = deref (shared_p this) m"

record const_ref =
  const_p :: "addr option"

text \<open>The two converting constructors of \<^verbatim>\<open>const_ref\<close>.\<close>

definition const_ref_of_owner :: "owner_ref \<Rightarrow> const_ref" where
  "const_ref_of_owner src = \<lparr>const_p = owner_p src\<rparr>"

definition const_ref_of_shared :: "shared_ref \<Rightarrow> const_ref" where
  "const_ref_of_shared src = \<lparr>const_p = shared_p src\<rparr>"

definition const_ref_arrow :: "const_ref \<Rightarrow> addr option" where
  "const_ref_arrow this = const_p this"

definition const_ref_star :: "const_ref \<Rightarrow> 'a memory \<Rightarrow> error + 'a" where
  "const_ref_star this m = deref (const_p this) m"

section \<open>The container \<^verbatim>\<open>owning_stack\<close>\<close>

text \<open>
  The single member is \<^verbatim>\<open>std::stack<owner_ref<T>> _v\<close>, a list whose head is the top.
  \<^verbatim>\<open>std::stack::push(value_type&&)\<close> builds the new element with the element type's
  move constructor; \<^verbatim>\<open>std::stack::top\<close> and \<^verbatim>\<open>std::stack::pop\<close> require a non-empty
  stack, and \<^verbatim>\<open>std::stack::pop\<close> destroys the element it removes.
\<close>

record owning_stack =
  stack_v :: "owner_ref list"

text \<open>
  \<^verbatim>\<open>void push(owner_ref<T>&& p) { _v.push(std::move(p)); }\<close>
  The new element is initialised from the rvalue \<^verbatim>\<open>std::move(p)\<close>. The result is the
  stack and the caller's handle \<open>p\<close> after the call.
\<close>

definition owning_stack_push ::
  "bool \<Rightarrow> owning_stack \<Rightarrow> owner_ref \<Rightarrow> 'a memory \<Rightarrow> error + ((owning_stack \<times> owner_ref) \<times> 'a memory)" where
  "owning_stack_push dbg this p m =
     (case owner_ref_select_ctor Rvalue of
        Inl e \<Rightarrow> Inl e
      | Inr ctor \<Rightarrow>
          (case ctor dbg p m of
             Inl e \<Rightarrow> Inl e
           | Inr ((elem, p'), m') \<Rightarrow> Inr ((this\<lparr>stack_v := elem # stack_v this\<rparr>, p'), m')))"

text \<open>
  \<^verbatim>\<open>shared_ref<T> top() { return _v.top(); }\<close>
  The member function is not \<^verbatim>\<open>const\<close>, so the stack after the call is part of the result.
  There is no assertion in it.
\<close>

definition owning_stack_top ::
  "owning_stack \<Rightarrow> 'a memory \<Rightarrow> error + ((shared_ref \<times> owning_stack) \<times> 'a memory)" where
  "owning_stack_top this m =
     (case stack_v this of
        [] \<Rightarrow> Inl UndefinedBehaviour
      | t # rest \<Rightarrow> Inr ((shared_ref_ctor t, this), m))"

text \<open>
  \<^verbatim>\<open>owner_ref<T> pop() { owner_ref<T> r = _v.top(); _v.pop(); return r; }\<close>
  \<^verbatim>\<open>_v.top()\<close> has type \<^verbatim>\<open>owner_ref<T>&\<close>: the initialiser of \<open>r\<close> is an lvalue (the
  source has no \<^verbatim>\<open>std::move\<close> around it). The rest is modelled as written: the selected
  constructor builds \<open>r\<close> from the top element, and \<^verbatim>\<open>_v.pop()\<close> destroys the top
  element as that constructor left it.
\<close>

definition owning_stack_pop ::
  "bool \<Rightarrow> owning_stack \<Rightarrow> 'a memory \<Rightarrow> error + ((owner_ref \<times> owning_stack) \<times> 'a memory)" where
  "owning_stack_pop dbg this m =
     (case owner_ref_select_ctor Lvalue of
        Inl e \<Rightarrow> Inl e
      | Inr ctor \<Rightarrow>
          (case stack_v this of
             [] \<Rightarrow> Inl UndefinedBehaviour
           | t # rest \<Rightarrow>
               (case ctor dbg t m of
                  Inl e \<Rightarrow> Inl e
                | Inr ((r, t'), m1) \<Rightarrow>
                    (case owner_ref_dtor t' m1 of
                       Inl e \<Rightarrow> Inl e
                     | Inr m2 \<Rightarrow> Inr ((r, this\<lparr>stack_v := rest\<rparr>), m2)))))"

section \<open>Destroying handles\<close>


section \<open>Client programs\<close>

text \<open>
  A client owns a list of handle variables, one stack and the memory. Beside each
  variable stands a flag that is not in the program: it holds while the variable is in
  the moved-from state, that is, it was the source of a move and has not been assigned
  to since. A client can create a handle with \<^verbatim>\<open>make_owner_ref\<close>, move-construct a new
  variable from variable \<open>j\<close>, move-assign variable \<open>j\<close> to variable \<open>i\<close>, push
  variable \<open>j\<close>, initialise a new variable with \<^verbatim>\<open>pop()\<close> and end the scope of variable
  \<open>j\<close>, which runs its destructor and takes it out of the list. In \<open>MoveAssign i i\<close> both
  references name one object, whose last write is \<^verbatim>\<open>other._p = nullptr\<close>.
\<close>

record 'a client =
  vars :: "(owner_ref \<times> bool) list"
  stk :: owning_stack
  mem :: "'a memory"

datatype 'a action =
  Make 'a | MoveCtor nat | MoveAssign nat nat | Push nat | Pop | Destroy nat

fun step :: "bool \<Rightarrow> 'a action \<Rightarrow> 'a client \<Rightarrow> error + 'a client" where
  "step dbg (Make v) c =
     (case make_owner_ref Inr v (mem c) of
        Inl e \<Rightarrow> Inl e
      | Inr (h, m') \<Rightarrow> Inr (c\<lparr>vars := vars c @ [(h, False)], mem := m'\<rparr>))"
| "step dbg (MoveCtor j) c =
     (if j < length (vars c) then
        (case owner_ref_move_ctor dbg (fst (vars c ! j)) (mem c) of
           Inl e \<Rightarrow> Inl e
         | Inr ((h, src'), m') \<Rightarrow>
             Inr (c\<lparr>vars := (vars c)[j := (src', True)] @ [(h, False)], mem := m'\<rparr>))
      else Inl IllFormed)"
| "step dbg (MoveAssign i j) c =
     (if i < length (vars c) \<and> j < length (vars c) then
        (case owner_ref_move_assign dbg (fst (vars c ! i)) (fst (vars c ! j)) (mem c) of
           Inl e \<Rightarrow> Inl e
         | Inr ((dst', src'), m') \<Rightarrow>
             Inr (c\<lparr>vars := (vars c)[i := (dst', False), j := (src', True)], mem := m'\<rparr>))
      else Inl IllFormed)"
| "step dbg (Push j) c =
     (if j < length (vars c) then
        (case owning_stack_push dbg (stk c) (fst (vars c ! j)) (mem c) of
           Inl e \<Rightarrow> Inl e
         | Inr ((s', src'), m') \<Rightarrow>
             Inr (c\<lparr>vars := (vars c)[j := (src', True)], stk := s', mem := m'\<rparr>))
      else Inl IllFormed)"
| "step dbg Pop c =
     (case owning_stack_pop dbg (stk c) (mem c) of
        Inl e \<Rightarrow> Inl e
      | Inr ((h, s'), m') \<Rightarrow>
          Inr (c\<lparr>vars := vars c @ [(h, False)], stk := s', mem := m'\<rparr>))"
| "step dbg (Destroy j) c =
     (if j < length (vars c) then
        (case owner_ref_dtor (fst (vars c ! j)) (mem c) of
           Inl e \<Rightarrow> Inl e
         | Inr m' \<Rightarrow>
             Inr (c\<lparr>vars := take j (vars c) @ drop (Suc j) (vars c), mem := m'\<rparr>))
      else Inl IllFormed)"

fun run :: "bool \<Rightarrow> 'a action list \<Rightarrow> 'a client \<Rightarrow> error + 'a client" where
  "run dbg [] c = Inr c"
| "run dbg (x # xs) c =
     (case step dbg x c of Inl e \<Rightarrow> Inl e | Inr c' \<Rightarrow> run dbg xs c')"

definition start :: "'a client" where
  "start = \<lparr>vars = [], stk = \<lparr>stack_v = []\<rparr>, mem = \<lparr>heap = [], deleted = []\<rparr>\<rparr>"

text \<open>
  The invariant: a variable's pointer is null exactly when its flag holds, and no element
  of the stack has a null pointer.
\<close>

definition handle_ok :: "owner_ref \<times> bool \<Rightarrow> bool" where
  "handle_ok hv = ((owner_p (fst hv) = None) = snd hv)"

definition element_ok :: "owner_ref \<Rightarrow> bool" where
  "element_ok h = (owner_p h \<noteq> None)"

definition client_inv :: "'a client \<Rightarrow> bool" where
  "client_inv c = (list_all handle_ok (vars c) \<and> list_all element_ok (stack_v (stk c)))"


definition holders :: "owner_ref list \<Rightarrow> addr \<Rightarrow> nat" where
  "holders hs a = length (filter (\<lambda>h. owner_p h = Some a) hs)"



section \<open>Moving an owning handle\<close>

text \<open>
  Claim C1. Moving from a non-empty handle transfers ownership. Move construction always
  returns; the source is empty afterwards and the new handle dereferences to what the
  source dereferenced to. Move assignment does the same when the destination was empty,
  as its contract demands. Into a destination that is not empty, the build with
  assertions stops at \<^verbatim>\<open>assert(_p == nullptr)\<close>.
\<close>

theorem owner_ref_move_transfers_ownership:
  "owner_p src = Some a \<Longrightarrow>
   (\<exists>dst src'. owner_ref_move_ctor dbg src m = Inr ((dst, src'), m) \<and>
      owner_p src' = None \<and> owner_ref_star dst m = owner_ref_star src m) \<and>
   (owner_p this = None \<longrightarrow>
     (\<exists>dst src'. owner_ref_move_assign dbg this src m = Inr ((dst, src'), m) \<and>
        owner_p src' = None \<and> owner_ref_star dst m = owner_ref_star src m)) \<and>
   (owner_p busy \<noteq> None \<longrightarrow>
      owner_ref_move_assign True busy src m = Inl AssertionFailed)"
  by (simp add: owner_ref_move_ctor_def owner_ref_move_assign_def owner_ref_star_def)

theorem owner_ref_move_transfers_ownership_witness:
  "owner_p \<lparr>owner_p = Some 0\<rparr> = Some 0 \<and>
   owner_ref_star \<lparr>owner_p = Some 0\<rparr> \<lparr>heap = [Some (7::nat), Some 8], deleted = []\<rparr> = Inr 7 \<and>
   (\<exists>dst src'.
      owner_ref_move_ctor True \<lparr>owner_p = Some 0\<rparr> \<lparr>heap = [Some (7::nat), Some 8], deleted = []\<rparr>
        = Inr ((dst, src'), \<lparr>heap = [Some 7, Some 8], deleted = []\<rparr>) \<and>
      owner_p src' = None \<and>
      owner_ref_star dst \<lparr>heap = [Some (7::nat), Some 8], deleted = []\<rparr> = Inr 7) \<and>
   owner_p \<lparr>owner_p = None\<rparr> = None \<and>
   (\<exists>dst src'.
      owner_ref_move_assign True \<lparr>owner_p = None\<rparr> \<lparr>owner_p = Some 0\<rparr>
          \<lparr>heap = [Some (7::nat), Some 8], deleted = []\<rparr>
        = Inr ((dst, src'), \<lparr>heap = [Some 7, Some 8], deleted = []\<rparr>) \<and>
      owner_p src' = None \<and>
      owner_ref_star dst \<lparr>heap = [Some (7::nat), Some 8], deleted = []\<rparr> = Inr 7) \<and>
   owner_p \<lparr>owner_p = Some 1\<rparr> \<noteq> None \<and>
   owner_ref_move_assign True \<lparr>owner_p = Some 1\<rparr> \<lparr>owner_p = Some 0\<rparr>
       \<lparr>heap = [Some (7::nat), Some 8], deleted = []\<rparr>
     = Inl AssertionFailed"
  using owner_ref_move_transfers_ownership
      [of "\<lparr>owner_p = Some 0\<rparr>" 0 True "\<lparr>heap = [Some (7::nat), Some 8], deleted = []\<rparr>"
          "\<lparr>owner_p = None\<rparr>" "\<lparr>owner_p = Some 1\<rparr>"]
  by (simp add: owner_ref_star_def deref_def lookup_def)

section \<open>Allocation\<close>

lemma make_owner_ref_result:
  "ctor args = Inr v \<Longrightarrow>
   make_owner_ref ctor args m =
     Inr (\<lparr>owner_p = Some (length (heap m))\<rparr>, m\<lparr>heap := heap m @ [Some v]\<rparr>)"
  by (simp add: make_owner_ref_def new_obj_def owner_ref_raw_def)

lemma make_owner_ref_throws: "ctor args = Inl e \<Longrightarrow> make_owner_ref ctor args m = Inl e"
  by (simp add: make_owner_ref_def)

text \<open>
  Claim C6. For every payload type and all constructor arguments for which the payload's
  constructor returns an object \<open>v\<close>, \<^verbatim>\<open>make_owner_ref\<close> returns a handle that is not
  empty and dereferences to \<open>v\<close>.
\<close>

theorem make_owner_ref_constructs:
  "ctor args = Inr v \<Longrightarrow>
   (\<exists>h m'. make_owner_ref ctor args m = Inr (h, m') \<and> owner_p h \<noteq> None \<and>
      owner_ref_star h m' = Inr v)"
  by (simp add: make_owner_ref_result owner_ref_star_def deref_def lookup_def)

theorem make_owner_ref_constructs_witness:
  "(Inr (7::nat) :: error + nat) = Inr 7 \<and>
   (\<exists>h m'. make_owner_ref Inr (7::nat) \<lparr>heap = [Some 3], deleted = []\<rparr> = Inr (h, m') \<and>
      owner_p h \<noteq> None \<and> owner_ref_star h m' = Inr 7)"
  using make_owner_ref_constructs [of Inr "7::nat" 7 "\<lparr>heap = [Some 3], deleted = []\<rparr>"]
  by simp

section \<open>Destruction\<close>



section \<open>Moving from an empty handle\<close>

text \<open>
  Claim C7 as stated fails: with assertions checked, a move from an empty handle is not
  a step without effect but the failure of \<^verbatim>\<open>assert(other._p != nullptr)\<close>, in the move
  constructor and in move assignment alike; and without assertions, move assignment from
  an empty handle changes a destination that held an object, which becomes empty.
\<close>

theorem move_from_empty_counterexample:
  "owner_ref_move_ctor True \<lparr>owner_p = None\<rparr> \<lparr>heap = [Some (7::nat)], deleted = []\<rparr>
     = Inl AssertionFailed \<and>
   owner_ref_move_assign True \<lparr>owner_p = None\<rparr> \<lparr>owner_p = None\<rparr>
       \<lparr>heap = [Some (7::nat)], deleted = []\<rparr>
     = Inl AssertionFailed \<and>
   owner_ref_move_assign False \<lparr>owner_p = Some 0\<rparr> \<lparr>owner_p = None\<rparr>
       \<lparr>heap = [Some (7::nat)], deleted = []\<rparr>
     = Inr ((\<lparr>owner_p = None\<rparr>, \<lparr>owner_p = None\<rparr>), \<lparr>heap = [Some 7], deleted = []\<rparr>)"
  by (simp add: owner_ref_move_ctor_def owner_ref_move_assign_def)

text \<open>
  Claim C7, amended. A move from an empty handle is a checked error: with assertions
  both moves fail before anything changes. Without assertions the move returns, the
  memory is as before (nothing is deleted), the source is still empty and the
  destination is empty afterwards, so a destination that was empty is unchanged; the
  destructors of both handles then delete nothing.
\<close>

theorem move_from_empty_checked:
  "owner_p src = None \<Longrightarrow>
   owner_ref_move_ctor True src m = Inl AssertionFailed \<and>
   owner_ref_move_assign True this src m = Inl AssertionFailed \<and>
   owner_ref_move_ctor False src m = Inr ((\<lparr>owner_p = None\<rparr>, src), m) \<and>
   owner_ref_move_assign False this src m = Inr ((this\<lparr>owner_p := None\<rparr>, src), m) \<and>
   owner_ref_dtor src m = Inr m \<and>
   owner_ref_dtor (this\<lparr>owner_p := None\<rparr>) m = Inr m"
  by (simp add: owner_ref_move_ctor_def owner_ref_move_assign_def owner_ref_dtor_def)

theorem move_from_empty_checked_witness:
  "owner_p \<lparr>owner_p = None\<rparr> = None \<and>
   owner_ref_move_ctor True \<lparr>owner_p = None\<rparr> \<lparr>heap = [Some (7::nat)], deleted = []\<rparr>
     = Inl AssertionFailed \<and>
   owner_ref_move_assign True \<lparr>owner_p = None\<rparr> \<lparr>owner_p = None\<rparr>
       \<lparr>heap = [Some (7::nat)], deleted = []\<rparr>
     = Inl AssertionFailed \<and>
   owner_ref_move_assign False \<lparr>owner_p = None\<rparr> \<lparr>owner_p = None\<rparr>
       \<lparr>heap = [Some (7::nat)], deleted = []\<rparr>
     = Inr ((\<lparr>owner_p = None\<rparr>, \<lparr>owner_p = None\<rparr>), \<lparr>heap = [Some 7], deleted = []\<rparr>)"
  using move_from_empty_checked
      [of "\<lparr>owner_p = None\<rparr>" "\<lparr>heap = [Some (7::nat)], deleted = []\<rparr>" "\<lparr>owner_p = None\<rparr>"]
  by simp

section \<open>Dereferencing an empty handle\<close>

lemma deref_never_asserts: "deref p m \<noteq> Inl AssertionFailed"
  by (simp add: deref_def split: option.splits)

text \<open>
  Claim C9 as stated fails: neither operator has an assertion. On an empty handle
  \<^verbatim>\<open>operator->\<close> returns the null pointer it holds, and \<^verbatim>\<open>operator*\<close> applies \<^verbatim>\<open>*\<close> to
  it, which is undefined and is not the failure of an assertion.
\<close>

theorem deref_empty_counterexample:
  "owner_ref_arrow \<lparr>owner_p = None\<rparr> = None \<and>
   owner_ref_star \<lparr>owner_p = None\<rparr> \<lparr>heap = [Some (7::nat)], deleted = []\<rparr>
     = Inl UndefinedBehaviour \<and>
   owner_ref_star \<lparr>owner_p = None\<rparr> \<lparr>heap = [Some (7::nat)], deleted = []\<rparr>
     \<noteq> Inl AssertionFailed"
  by (simp add: owner_ref_arrow_def owner_ref_star_def deref_def)

text \<open>
  Claim C9, amended. Dereferencing an empty handle is undefined and unchecked in every
  build: \<^verbatim>\<open>operator->\<close> returns the null pointer, \<^verbatim>\<open>operator*\<close> is undefined behaviour,
  and no assertion fails.
\<close>

theorem deref_empty_unchecked:
  "owner_p h = None \<Longrightarrow>
   owner_ref_arrow h = None \<and>
   owner_ref_star h m = Inl UndefinedBehaviour \<and>
   owner_ref_star h m \<noteq> Inl AssertionFailed"
  by (simp add: owner_ref_arrow_def owner_ref_star_def deref_def)

theorem deref_empty_unchecked_witness:
  "owner_p \<lparr>owner_p = None\<rparr> = None \<and>
   owner_ref_arrow \<lparr>owner_p = None\<rparr> = None \<and>
   owner_ref_star \<lparr>owner_p = None\<rparr> \<lparr>heap = [Some (7::nat)], deleted = []\<rparr>
     = Inl UndefinedBehaviour"
  using deref_empty_unchecked [of "\<lparr>owner_p = None\<rparr>" "\<lparr>heap = [Some (7::nat)], deleted = []\<rparr>"]
  by simp

section \<open>The stack\<close>

lemma owning_stack_push_nonempty:
  "owner_p h = Some a \<Longrightarrow>
   owning_stack_push dbg s h m =
     Inr ((s\<lparr>stack_v := \<lparr>owner_p = Some a\<rparr> # stack_v s\<rparr>, \<lparr>owner_p = None\<rparr>), m)"
  by (simp add: owning_stack_push_def owner_ref_select_ctor_def owner_ref_move_ctor_def)

lemma owning_stack_top_nonempty:
  "stack_v s = t # rest \<Longrightarrow>
   owning_stack_top s m = Inr ((\<lparr>shared_p = owner_p t\<rparr>, s), m)"
  by (simp add: owning_stack_top_def shared_ref_ctor_def)

text \<open>
  \<^verbatim>\<open>top()\<close> after a \<^verbatim>\<open>push\<close>, for every stack and every handle that is not empty: the
  stack and the memory are as the push left them, and the view reads what the pushed
  handle read.
\<close>

lemma owning_stack_top_after_push:
  "owner_p h = Some a \<Longrightarrow> owning_stack_push dbg s h m = Inr ((s', h'), m') \<Longrightarrow>
   owning_stack_top s' m' = Inr ((\<lparr>shared_p = Some a\<rparr>, s'), m') \<and>
   shared_ref_star \<lparr>shared_p = Some a\<rparr> m' = owner_ref_star h m"
  by (auto simp: owning_stack_push_nonempty owning_stack_top_def shared_ref_ctor_def
                 shared_ref_star_def owner_ref_star_def)

text \<open>
  \<^verbatim>\<open>pop()\<close> never returns a handle, whatever the stack and the build: the initialisation
  of \<open>r\<close> selects the deleted copy constructor.
\<close>

lemma owning_stack_pop_ill_formed: "owning_stack_pop dbg s m = Inl IllFormed"
  by (simp add: owning_stack_pop_def owner_ref_select_ctor_def)

lemma owning_stack_pop_fails: "owning_stack_pop dbg s m \<noteq> Inr r"
  by (simp add: owning_stack_pop_ill_formed)

text \<open>
  Claim C8 as stated fails for \<^verbatim>\<open>top()\<close>: \<^verbatim>\<open>owning_stack\<close> has no assertion, and on an
  empty stack \<^verbatim>\<open>top()\<close> calls \<^verbatim>\<open>std::stack::top\<close> outside its precondition.
\<close>

theorem owning_stack_top_empty_counterexample:
  "owning_stack_top \<lparr>stack_v = []\<rparr> \<lparr>heap = [Some (7::nat)], deleted = []\<rparr>
     = Inl UndefinedBehaviour \<and>
   owning_stack_top \<lparr>stack_v = []\<rparr> \<lparr>heap = [Some (7::nat)], deleted = []\<rparr>
     \<noteq> Inl AssertionFailed"
  by (simp add: owning_stack_top_def)

text \<open>
  Claim C8, amended. \<^verbatim>\<open>top()\<close> on an empty stack is unchecked in every build: it is
  undefined behaviour, and no assertion of the program fails.
\<close>

theorem owning_stack_top_empty_unchecked:
  "stack_v s = [] \<Longrightarrow>
   owning_stack_top s m = Inl UndefinedBehaviour \<and>
   owning_stack_top s m \<noteq> Inl AssertionFailed"
  by (simp add: owning_stack_top_def)

theorem owning_stack_top_empty_unchecked_witness:
  "stack_v \<lparr>stack_v = []\<rparr> = [] \<and>
   owning_stack_top \<lparr>stack_v = []\<rparr> \<lparr>heap = [Some (7::nat)], deleted = []\<rparr>
     = Inl UndefinedBehaviour"
  using owning_stack_top_empty_unchecked
      [of "\<lparr>stack_v = []\<rparr>" "\<lparr>heap = [Some (7::nat)], deleted = []\<rparr>"]
  by simp

text \<open>
  Claim C4 at a concrete input: a handle made by \<^verbatim>\<open>make_owner_ref\<close> is pushed on the
  empty stack, which succeeds and empties the caller's handle. The \<^verbatim>\<open>pop()\<close> that
  follows returns no handle in either build, because its first statement copies an
  \<^verbatim>\<open>owner_ref\<close>.
\<close>

theorem owning_stack_push_pop_ill_formed:
  "make_owner_ref Inr (7::nat) \<lparr>heap = [], deleted = []\<rparr>
     = Inr (\<lparr>owner_p = Some 0\<rparr>, \<lparr>heap = [Some 7], deleted = []\<rparr>) \<and>
   owning_stack_push True \<lparr>stack_v = []\<rparr> \<lparr>owner_p = Some 0\<rparr> \<lparr>heap = [Some (7::nat)], deleted = []\<rparr>
     = Inr ((\<lparr>stack_v = [\<lparr>owner_p = Some 0\<rparr>]\<rparr>, \<lparr>owner_p = None\<rparr>),
            \<lparr>heap = [Some 7], deleted = []\<rparr>) \<and>
   owning_stack_pop True \<lparr>stack_v = [\<lparr>owner_p = Some 0\<rparr>]\<rparr> \<lparr>heap = [Some (7::nat)], deleted = []\<rparr>
     = Inl IllFormed \<and>
   owning_stack_pop False \<lparr>stack_v = [\<lparr>owner_p = Some 0\<rparr>]\<rparr> \<lparr>heap = [Some (7::nat)], deleted = []\<rparr>
     = Inl IllFormed"
  by (simp add: make_owner_ref_result owning_stack_push_nonempty owning_stack_pop_ill_formed)

text \<open>
  Claim C5 at a concrete input: handles to the objects 1 and 2 are pushed in this order.
  \<^verbatim>\<open>top()\<close> leaves the stack as it is and returns a view of the handle pushed last, which
  reads 2. The \<^verbatim>\<open>pop()\<close> that should uncover the first handle returns no handle.
\<close>

theorem owning_stack_top_lifo_until_pop:
  "owning_stack_push True \<lparr>stack_v = []\<rparr> \<lparr>owner_p = Some 0\<rparr>
       \<lparr>heap = [Some (1::nat), Some 2], deleted = []\<rparr>
     = Inr ((\<lparr>stack_v = [\<lparr>owner_p = Some 0\<rparr>]\<rparr>, \<lparr>owner_p = None\<rparr>),
            \<lparr>heap = [Some 1, Some 2], deleted = []\<rparr>) \<and>
   owning_stack_push True \<lparr>stack_v = [\<lparr>owner_p = Some 0\<rparr>]\<rparr> \<lparr>owner_p = Some 1\<rparr>
       \<lparr>heap = [Some (1::nat), Some 2], deleted = []\<rparr>
     = Inr ((\<lparr>stack_v = [\<lparr>owner_p = Some 1\<rparr>, \<lparr>owner_p = Some 0\<rparr>]\<rparr>, \<lparr>owner_p = None\<rparr>),
            \<lparr>heap = [Some 1, Some 2], deleted = []\<rparr>) \<and>
   owning_stack_top \<lparr>stack_v = [\<lparr>owner_p = Some 1\<rparr>, \<lparr>owner_p = Some 0\<rparr>]\<rparr>
       \<lparr>heap = [Some (1::nat), Some 2], deleted = []\<rparr>
     = Inr ((\<lparr>shared_p = Some 1\<rparr>, \<lparr>stack_v = [\<lparr>owner_p = Some 1\<rparr>, \<lparr>owner_p = Some 0\<rparr>]\<rparr>),
            \<lparr>heap = [Some 1, Some 2], deleted = []\<rparr>) \<and>
   shared_ref_star \<lparr>shared_p = Some 1\<rparr> \<lparr>heap = [Some (1::nat), Some 2], deleted = []\<rparr> = Inr 2 \<and>
   owning_stack_pop True \<lparr>stack_v = [\<lparr>owner_p = Some 1\<rparr>, \<lparr>owner_p = Some 0\<rparr>]\<rparr>
       \<lparr>heap = [Some (1::nat), Some 2], deleted = []\<rparr>
     = Inl IllFormed"
  by (simp add: owning_stack_push_nonempty owning_stack_top_nonempty owning_stack_pop_ill_formed
                shared_ref_star_def deref_def lookup_def)

section \<open>Null exactly when moved from\<close>

lemma list_all_update: "list_all P xs \<Longrightarrow> P x \<Longrightarrow> list_all P (xs[i := x])"
  by (induction xs arbitrary: i) (auto split: nat.splits)

lemma list_all_take: "list_all P xs \<Longrightarrow> list_all P (take i xs)"
  by (auto simp: list_all_iff dest: in_set_takeD)

lemma list_all_drop: "list_all P xs \<Longrightarrow> list_all P (drop i xs)"
  by (auto simp: list_all_iff dest: in_set_dropD)

lemma step_inv:
  assumes "client_inv c" and "step True x c = Inr c'"
  shows "client_inv c'"
proof (cases x)
  case (Make v)
  with assms show ?thesis
    by (auto simp: client_inv_def handle_ok_def make_owner_ref_def new_obj_def owner_ref_raw_def)
next
  case (MoveCtor j)
  with assms show ?thesis
    by (auto simp: client_inv_def handle_ok_def owner_ref_move_ctor_def
             intro!: list_all_update split: if_splits)
next
  case (MoveAssign i j)
  with assms show ?thesis
    by (auto simp: client_inv_def handle_ok_def owner_ref_move_assign_def
             intro!: list_all_update split: if_splits)
next
  case (Push j)
  with assms show ?thesis
    by (auto simp: client_inv_def handle_ok_def element_ok_def owning_stack_push_def
                   owner_ref_select_ctor_def owner_ref_move_ctor_def
             intro!: list_all_update split: if_splits)
next
  case Pop
  with assms show ?thesis
    by (auto simp: owning_stack_pop_fails split: sum.splits)
next
  case (Destroy j)
  with assms show ?thesis
    by (auto simp: client_inv_def intro: list_all_take list_all_drop
             split: if_splits sum.splits)
qed

lemma run_inv: "client_inv c \<Longrightarrow> run True xs c = Inr c' \<Longrightarrow> client_inv c'"
proof (induction xs arbitrary: c)
  case Nil
  then show ?case by simp
next
  case (Cons x xs)
  then show ?case
    by (auto split: sum.splits dest: step_inv)
qed

lemma start_inv: "client_inv start"
  by (simp add: client_inv_def start_def)

text \<open>What the build with assertions lets through, the build without them does alike.\<close>

lemma step_release:
  assumes "step True x c = Inr c'"
  shows "step False x c = Inr c'"
proof (cases x)
  case (Make v)
  with assms show ?thesis by simp
next
  case (MoveCtor j)
  with assms show ?thesis
    by (auto simp: owner_ref_move_ctor_def split: if_splits)
next
  case (MoveAssign i j)
  with assms show ?thesis
    by (auto simp: owner_ref_move_assign_def split: if_splits)
next
  case (Push j)
  with assms show ?thesis
    by (auto simp: owning_stack_push_def owner_ref_select_ctor_def owner_ref_move_ctor_def
             split: if_splits)
next
  case Pop
  with assms show ?thesis
    by (auto simp: owning_stack_pop_fails split: sum.splits)
next
  case (Destroy j)
  with assms show ?thesis by simp
qed

lemma run_release: "run True xs c = Inr c' \<Longrightarrow> run False xs c = Inr c'"
proof (induction xs arbitrary: c)
  case Nil
  then show ?case by simp
next
  case (Cons x xs)
  then show ?case
    by (auto split: sum.splits dest: step_release)
qed

text \<open>
  Claim C10 as stated fails where assertions are not checked: a client that makes a
  handle and moves from it twice obtains, by the second move, a handle that starts empty
  and has never been moved from.
\<close>

theorem moved_from_counterexample:
  "run False [Make (7::nat), MoveCtor 0, MoveCtor 0] start
     = Inr \<lparr>vars = [(\<lparr>owner_p = None\<rparr>, True), (\<lparr>owner_p = Some 0\<rparr>, False),
                     (\<lparr>owner_p = None\<rparr>, False)],
            stk = \<lparr>stack_v = []\<rparr>, mem = \<lparr>heap = [Some 7], deleted = []\<rparr>\<rparr> \<and>
   \<not> handle_ok (\<lparr>owner_p = None\<rparr>, False) \<and>
   owner_ref_move_ctor False \<lparr>owner_p = None\<rparr> \<lparr>heap = [Some (7::nat)], deleted = []\<rparr>
     = Inr ((\<lparr>owner_p = None\<rparr>, \<lparr>owner_p = None\<rparr>), \<lparr>heap = [Some 7], deleted = []\<rparr>)"
  by (simp add: start_def make_owner_ref_def new_obj_def owner_ref_raw_def
                owner_ref_move_ctor_def handle_ok_def)

text \<open>
  Claim C10, amended. \<^verbatim>\<open>make_owner_ref\<close> returns a handle with a non-null address that
  held no object before. With assertions checked, after every sequence of allocations,
  moves and pushes that runs to its end, a handle variable's pointer is null exactly
  when the variable is in the moved-from state, and no element of the stack is null;
  the build without assertions runs every such sequence to the same state.
\<close>

theorem null_exactly_when_moved_from:
  "(ctor args = Inr v \<longrightarrow>
      (\<exists>a m'. make_owner_ref ctor args m = Inr (\<lparr>owner_p = Some a\<rparr>, m') \<and>
         lookup m a = None \<and> lookup m' a = Some v)) \<and>
   (run True xs start = Inr c \<longrightarrow>
      (\<forall>hv \<in> set (vars c). (owner_p (fst hv) = None) = snd hv) \<and>
      (\<forall>h \<in> set (stack_v (stk c)). owner_p h \<noteq> None) \<and>
      run False xs start = Inr c)"
proof (intro conjI impI)
  assume "ctor args = Inr v"
  then have "make_owner_ref ctor args m =
      Inr (\<lparr>owner_p = Some (length (heap m))\<rparr>, m\<lparr>heap := heap m @ [Some v]\<rparr>)"
    by (rule make_owner_ref_result)
  moreover have "lookup m (length (heap m)) = None"
    by (simp add: lookup_def)
  moreover have "lookup (m\<lparr>heap := heap m @ [Some v]\<rparr>) (length (heap m)) = Some v"
    by (simp add: lookup_def)
  ultimately show "\<exists>a m'. make_owner_ref ctor args m = Inr (\<lparr>owner_p = Some a\<rparr>, m') \<and>
         lookup m a = None \<and> lookup m' a = Some v"
    by blast
next
  assume r: "run True xs start = Inr c"
  have inv: "client_inv c"
    using start_inv r by (rule run_inv)
  from inv show "\<forall>hv \<in> set (vars c). (owner_p (fst hv) = None) = snd hv"
    by (simp add: client_inv_def list_all_iff handle_ok_def)
  from inv show "\<forall>h \<in> set (stack_v (stk c)). owner_p h \<noteq> None"
    by (simp add: client_inv_def list_all_iff element_ok_def)
  from r show "run False xs start = Inr c"
    by (rule run_release)
qed

theorem null_exactly_when_moved_from_witness:
  "(Inr (7::nat) :: error + nat) = Inr 7 \<and>
   make_owner_ref Inr (7::nat) \<lparr>heap = [Some (7::nat)], deleted = []\<rparr>
     = Inr (\<lparr>owner_p = Some 1\<rparr>, \<lparr>heap = [Some 7, Some 7], deleted = []\<rparr>) \<and>
   run True [Make (1::nat), MoveCtor 0, Push 1, Make 2, MoveAssign 0 2] start
     = Inr \<lparr>vars = [(\<lparr>owner_p = Some 1\<rparr>, False), (\<lparr>owner_p = None\<rparr>, True),
                     (\<lparr>owner_p = None\<rparr>, True)],
            stk = \<lparr>stack_v = [\<lparr>owner_p = Some 0\<rparr>]\<rparr>,
            mem = \<lparr>heap = [Some 1, Some 2], deleted = []\<rparr>\<rparr> \<and>
   run False [Make (1::nat), MoveCtor 0, Push 1, Make 2, MoveAssign 0 2] start
     = Inr \<lparr>vars = [(\<lparr>owner_p = Some 1\<rparr>, False), (\<lparr>owner_p = None\<rparr>, True),
                     (\<lparr>owner_p = None\<rparr>, True)],
            stk = \<lparr>stack_v = [\<lparr>owner_p = Some 0\<rparr>]\<rparr>,
            mem = \<lparr>heap = [Some 1, Some 2], deleted = []\<rparr>\<rparr>"
proof -
  have r: "run True [Make (1::nat), MoveCtor 0, Push 1, Make 2, MoveAssign 0 2] start
     = Inr \<lparr>vars = [(\<lparr>owner_p = Some 1\<rparr>, False), (\<lparr>owner_p = None\<rparr>, True),
                     (\<lparr>owner_p = None\<rparr>, True)],
            stk = \<lparr>stack_v = [\<lparr>owner_p = Some 0\<rparr>]\<rparr>,
            mem = \<lparr>heap = [Some 1, Some 2], deleted = []\<rparr>\<rparr>"
    by (simp add: start_def make_owner_ref_def new_obj_def owner_ref_raw_def
                  owner_ref_move_ctor_def owner_ref_move_assign_def owning_stack_push_def
                  owner_ref_select_ctor_def)
  have mk: "make_owner_ref Inr (7::nat) \<lparr>heap = [Some (7::nat)], deleted = []\<rparr>
     = Inr (\<lparr>owner_p = Some 1\<rparr>, \<lparr>heap = [Some 7, Some 7], deleted = []\<rparr>)"
    by (simp add: make_owner_ref_def new_obj_def owner_ref_raw_def)
  from r mk show ?thesis
    using null_exactly_when_moved_from
      [of Inr "7::nat" 7 "\<lparr>heap = [Some (7::nat)], deleted = []\<rparr>"
          "[Make (1::nat), MoveCtor 0, Push 1, Make 2, MoveAssign 0 2]"
          "\<lparr>vars = [(\<lparr>owner_p = Some 1\<rparr>, False), (\<lparr>owner_p = None\<rparr>, True),
                     (\<lparr>owner_p = None\<rparr>, True)],
            stk = \<lparr>stack_v = [\<lparr>owner_p = Some 0\<rparr>]\<rparr>,
            mem = \<lparr>heap = [Some 1, Some 2], deleted = []\<rparr>\<rparr>"]
    by simp
qed

section \<open>Every object is deleted exactly once\<close>



lemma holders_Cons:
  "holders (h # hs) a = (if owner_p h = Some a then 1 else 0) + holders hs a"
  by (simp add: holders_def)

lemma holders_append: "holders (xs @ ys) a = holders xs a + holders ys a"
  by (simp add: holders_def)


lemma holders_remove:
  "i < length hs \<Longrightarrow>
   holders (take i hs @ drop (Suc i) hs) a + (if owner_p (hs ! i) = Some a then 1 else 0)
     = holders hs a"
proof -
  assume "i < length hs"
  then have "hs = take i hs @ hs ! i # drop (Suc i) hs"
    by (rule id_take_nth_drop)
  then have "holders hs a = holders (take i hs @ hs ! i # drop (Suc i) hs) a"
    by simp
  then show ?thesis
    by (simp add: holders_append holders_Cons)
qed























end
